theory Spec2Isabelle
  imports Complex_Main "HOL-Library.Multiset" "HOL-Library.AList"
begin

section \<open>Go strings\<close>

text \<open>
  A Go string is a byte sequence; it is modelled as \<open>string\<close> (a list of 8-bit characters).
  The functions of package \<open>strings\<close> used by the program are modelled on ASCII input:
  \<open>ToLower\<close>/\<open>ToUpper\<close> map the 26 letters and leave every other byte alone, white space
  is tab, line feed, vertical tab, form feed, carriage return and space. (On non-ASCII
  UTF-8 input Go also folds letters outside ASCII; that part is not modelled.)
\<close>

definition toLowerChar :: "char \<Rightarrow> char" where
  "toLowerChar c =
     (if 65 \<le> (of_char c :: nat) \<and> (of_char c :: nat) \<le> 90
      then char_of ((of_char c :: nat) + 32) else c)"

definition toUpperChar :: "char \<Rightarrow> char" where
  "toUpperChar c =
     (if 97 \<le> (of_char c :: nat) \<and> (of_char c :: nat) \<le> 122
      then char_of ((of_char c :: nat) - 32) else c)"

definition ToLower :: "string \<Rightarrow> string" where
  "ToLower s = map toLowerChar s"

definition ToUpper :: "string \<Rightarrow> string" where
  "ToUpper s = map toUpperChar s"

definition isSpace :: "char \<Rightarrow> bool" where
  "isSpace c = ((of_char c :: nat) \<in> {9, 10, 11, 12, 13, 32})"

definition TrimSpace :: "string \<Rightarrow> string" where
  "TrimSpace s = rev (dropWhile isSpace (rev (dropWhile isSpace s)))"

text \<open>\<open>strings.Trim(s, cutset)\<close>: all leading and trailing bytes of \<open>cutset\<close> removed.\<close>

definition Trim :: "string \<Rightarrow> string \<Rightarrow> string" where
  "Trim s cutset =
     rev (dropWhile (\<lambda>c. c \<in> set cutset) (rev (dropWhile (\<lambda>c. c \<in> set cutset) s)))"

fun HasPrefix :: "string \<Rightarrow> string \<Rightarrow> bool" where
  "HasPrefix s [] = True"
| "HasPrefix [] (p # ps) = False"
| "HasPrefix (c # cs) (p # ps) = (c = p \<and> HasPrefix cs ps)"

text \<open>\<open>strings.Contains(s, substr)\<close>: \<open>substr\<close> occurs in \<open>s\<close>; the empty string occurs
  in every string.\<close>

fun Contains :: "string \<Rightarrow> string \<Rightarrow> bool" where
  "Contains [] substr = (substr = [])"
| "Contains (c # cs) substr = (HasPrefix (c # cs) substr \<or> Contains cs substr)"

text \<open>\<open>strings.Fields(s)\<close>: the maximal runs of non-space bytes, in order.\<close>

fun fields_loop :: "string \<Rightarrow> string \<Rightarrow> string list" where
  "fields_loop [] cur = (if cur = [] then [] else [rev cur])"
| "fields_loop (c # cs) cur =
     (if isSpace c then (if cur = [] then fields_loop cs [] else rev cur # fields_loop cs [])
      else fields_loop cs (c # cur))"

definition Fields :: "string \<Rightarrow> string list" where
  "Fields s = fields_loop s []"

definition EqualFold :: "string \<Rightarrow> string \<Rightarrow> bool" where
  "EqualFold s t = (ToLower s = ToLower t)"

section \<open>Unified status taxonomy (pkg/consts, pkg/helpers/statushelpers)\<close>

definition PAYMENT_SOURCE_STRIPE :: string where "PAYMENT_SOURCE_STRIPE = ''stripe''"
definition PAYMENT_SOURCE_VIPPS :: string where "PAYMENT_SOURCE_VIPPS = ''vipps''"
definition PAYMENT_SOURCE_ZETTLE :: string where "PAYMENT_SOURCE_ZETTLE = ''zettle''"

definition TRANSACTION_STATUS_PENDING :: string where "TRANSACTION_STATUS_PENDING = ''pending''"
definition TRANSACTION_STATUS_SUCCEEDED :: string where "TRANSACTION_STATUS_SUCCEEDED = ''succeeded''"
definition TRANSACTION_STATUS_FAILED :: string where "TRANSACTION_STATUS_FAILED = ''failed''"
definition TRANSACTION_STATUS_CANCELLED :: string where "TRANSACTION_STATUS_CANCELLED = ''cancelled''"
definition TRANSACTION_STATUS_REFUNDED :: string where "TRANSACTION_STATUS_REFUNDED = ''refunded''"
definition TRANSACTION_STATUS_PROCESSING :: string where "TRANSACTION_STATUS_PROCESSING = ''processing''"
definition TRANSACTION_STATUS_EXPIRED :: string where "TRANSACTION_STATUS_EXPIRED = ''expired''"
definition TRANSACTION_STATUS_UNKNOWN :: string where "TRANSACTION_STATUS_UNKNOWN = ''unknown''"

text \<open>The three Go maps, as association lists with pairwise distinct keys.\<close>

definition StripeStatusMapping :: "(string \<times> string) list" where
  "StripeStatusMapping =
     [(''requires_payment_method'', TRANSACTION_STATUS_PENDING),
      (''requires_confirmation'', TRANSACTION_STATUS_PENDING),
      (''requires_action'', TRANSACTION_STATUS_PENDING),
      (''processing'', TRANSACTION_STATUS_PROCESSING),
      (''requires_capture'', TRANSACTION_STATUS_PROCESSING),
      (''succeeded'', TRANSACTION_STATUS_SUCCEEDED),
      (''canceled'', TRANSACTION_STATUS_CANCELLED),
      (''payment_failed'', TRANSACTION_STATUS_FAILED),
      (''refunded'', TRANSACTION_STATUS_REFUNDED),
      (''partially_refunded'', TRANSACTION_STATUS_REFUNDED)]"

definition VippsStatusMapping :: "(string \<times> string) list" where
  "VippsStatusMapping =
     [(''INITIATE'', TRANSACTION_STATUS_PENDING),
      (''REGISTER'', TRANSACTION_STATUS_PENDING),
      (''RESERVE'', TRANSACTION_STATUS_PROCESSING),
      (''CAPTURE'', TRANSACTION_STATUS_SUCCEEDED),
      (''SALE'', TRANSACTION_STATUS_SUCCEEDED),
      (''CANCEL'', TRANSACTION_STATUS_CANCELLED),
      (''VOID'', TRANSACTION_STATUS_CANCELLED),
      (''REFUND'', TRANSACTION_STATUS_REFUNDED),
      (''FAILED'', TRANSACTION_STATUS_FAILED),
      (''REJECTED'', TRANSACTION_STATUS_FAILED),
      (''EXPIRED'', TRANSACTION_STATUS_EXPIRED),
      (''ABANDONED'', TRANSACTION_STATUS_CANCELLED)]"

definition ZettleStatusMapping :: "(string \<times> string) list" where
  "ZettleStatusMapping =
     [(''PENDING'', TRANSACTION_STATUS_PENDING),
      (''COMPLETED'', TRANSACTION_STATUS_SUCCEEDED),
      (''FAILED'', TRANSACTION_STATUS_FAILED),
      (''CANCELLED'', TRANSACTION_STATUS_CANCELLED),
      (''REFUNDED'', TRANSACTION_STATUS_REFUNDED),
      (''VOIDED'', TRANSACTION_STATUS_CANCELLED),
      (''PROCESSING'', TRANSACTION_STATUS_PROCESSING),
      (''AUTHORIZED'', TRANSACTION_STATUS_PROCESSING),
      (''CAPTURED'', TRANSACTION_STATUS_SUCCEEDED)]"

text \<open>
  The fallback loop \<open>for k, v := range mapping { if strings.EqualFold(s, k) { return v } }\<close>.
  Go ranges over a map in no fixed order; the keys of each table are pairwise different
  also after case folding, so at most one key can match and the order does not matter.
\<close>

fun equalFoldLoop :: "string \<Rightarrow> (string \<times> string) list \<Rightarrow> string option" where
  "equalFoldLoop s [] = None"
| "equalFoldLoop s ((k, v) # rest) = (if EqualFold s k then Some v else equalFoldLoop s rest)"

definition normalizeStripeStatus :: "string \<Rightarrow> string" where
  "normalizeStripeStatus status =
     (let lowerStatus = ToLower status in
      case map_of StripeStatusMapping lowerStatus of
        Some mappedStatus \<Rightarrow> mappedStatus
      | None \<Rightarrow>
          (case equalFoldLoop status StripeStatusMapping of
             Some unifiedStatus \<Rightarrow> unifiedStatus
           | None \<Rightarrow> TRANSACTION_STATUS_UNKNOWN))"

definition normalizeVippsStatus :: "string \<Rightarrow> string" where
  "normalizeVippsStatus status =
     (case map_of VippsStatusMapping status of
        Some mappedStatus \<Rightarrow> mappedStatus
      | None \<Rightarrow>
          (let lowerStatus = ToLower status in
           case equalFoldLoop lowerStatus VippsStatusMapping of
             Some unifiedStatus \<Rightarrow> unifiedStatus
           | None \<Rightarrow> TRANSACTION_STATUS_UNKNOWN))"

definition normalizeZettleStatus :: "string \<Rightarrow> string" where
  "normalizeZettleStatus status =
     (case map_of ZettleStatusMapping status of
        Some mappedStatus \<Rightarrow> mappedStatus
      | None \<Rightarrow>
          (let lowerStatus = ToLower status in
           case equalFoldLoop lowerStatus ZettleStatusMapping of
             Some unifiedStatus \<Rightarrow> unifiedStatus
           | None \<Rightarrow> TRANSACTION_STATUS_UNKNOWN))"

definition inferStatusFromCommonNames :: "string \<Rightarrow> string" where
  "inferStatusFromCommonNames status =
     (let lowerStatus = ToLower status in
      if Contains lowerStatus ''success'' \<or> Contains lowerStatus ''complete'' \<or>
         Contains lowerStatus ''paid'' \<or> Contains lowerStatus ''capture''
      then TRANSACTION_STATUS_SUCCEEDED
      else if Contains lowerStatus ''pending'' \<or> Contains lowerStatus ''waiting'' \<or>
         Contains lowerStatus ''initiated''
      then TRANSACTION_STATUS_PENDING
      else if Contains lowerStatus ''processing'' \<or> Contains lowerStatus ''authorized''
      then TRANSACTION_STATUS_PROCESSING
      else if Contains lowerStatus ''fail'' \<or> Contains lowerStatus ''reject'' \<or>
         Contains lowerStatus ''decline''
      then TRANSACTION_STATUS_FAILED
      else if Contains lowerStatus ''cancel'' \<or> Contains lowerStatus ''void'' \<or>
         Contains lowerStatus ''abandon''
      then TRANSACTION_STATUS_CANCELLED
      else if Contains lowerStatus ''refund''
      then TRANSACTION_STATUS_REFUNDED
      else if Contains lowerStatus ''expir'' \<or> Contains lowerStatus ''timeout''
      then TRANSACTION_STATUS_EXPIRED
      else TRANSACTION_STATUS_UNKNOWN)"

definition NormalizeTransactionStatus :: "string \<Rightarrow> string \<Rightarrow> string" where
  "NormalizeTransactionStatus providerStatus source =
     (let normalizedStatus = ToUpper (TrimSpace providerStatus);
          src = ToLower source in
      if src = PAYMENT_SOURCE_STRIPE then normalizeStripeStatus normalizedStatus
      else if src = PAYMENT_SOURCE_VIPPS then normalizeVippsStatus normalizedStatus
      else if src = PAYMENT_SOURCE_ZETTLE then normalizeZettleStatus normalizedStatus
      else inferStatusFromCommonNames normalizedStatus)"


text \<open>
  The sentence of the specification, as a table: the categories in their priority order,
  each with its keywords; the first category one of whose keywords occurs in the lowercased
  status wins.
\<close>

definition keyword_categories :: "(string list \<times> string) list" where
  "keyword_categories =
     [([''success'', ''complete'', ''paid'', ''capture''], TRANSACTION_STATUS_SUCCEEDED),
      ([''pending'', ''waiting'', ''initiated''], TRANSACTION_STATUS_PENDING),
      ([''processing'', ''authorized''], TRANSACTION_STATUS_PROCESSING),
      ([''fail'', ''reject'', ''decline''], TRANSACTION_STATUS_FAILED),
      ([''cancel'', ''void'', ''abandon''], TRANSACTION_STATUS_CANCELLED),
      ([''refund''], TRANSACTION_STATUS_REFUNDED),
      ([''expir'', ''timeout''], TRANSACTION_STATUS_EXPIRED)]"

definition keyword_scan :: "string \<Rightarrow> string" where
  "keyword_scan lowerStatus =
     (case find (\<lambda>(keywords, unified). list_ex (Contains lowerStatus) keywords) keyword_categories of
        Some (keywords, unified) \<Rightarrow> unified
      | None \<Rightarrow> TRANSACTION_STATUS_UNKNOWN)"

definition mapping_lookup :: "(string \<times> string) list \<Rightarrow> string \<Rightarrow> string" where
  "mapping_lookup mapping status =
     (case map_of mapping status of Some unified \<Rightarrow> unified | None \<Rightarrow> TRANSACTION_STATUS_UNKNOWN)"

section \<open>Errors\<close>

text \<open>
  Go error values. \<open>External\<close> stands for an error produced outside the modelled code (a
  provider adapter, the operating system, \<open>encoding/csv\<close>, \<open>strconv\<close>); the other
  constructors are the \<open>fmt.Errorf\<close> calls of the program, with the values they format
  and, for \<open>%w\<close>, the error they wrap.
\<close>

datatype error =
    External string
  | ErrTransactionNotFound string
  | ErrRefreshFailed error
  | ErrProductNotFound string
  | ErrNoProductsWithPrice real
  | ErrMinGreaterThanMax
  | ErrOpenCSV error
  | ErrReadCSV error
  | ErrTooFewRecords
  | ErrInvalidRecord nat nat
  | ErrInvalidPrice nat error
  | ErrLoadPrices error

section \<open>Price matching engine (internal/services/prices)\<close>

text \<open>
  A finite \<open>float64\<close> value is the real number it denotes. Every arithmetic operation of
  the engine (and the conversion of the constants 0.05 and 0.4) rounds the exact result
  to the nearest binary64 number, ties to even: \<open>binade\<close> finds the power of two at or
  below the magnitude (not below \<open>2^-1022\<close>, where the subnormal range begins), the
  spacing of the binary64 numbers there is that power divided by \<open>2^52\<close>, and the result is
  the nearest multiple of the spacing. Comparison and negation are exact. Each operation
  is rounded on its own, as in a build that does not fuse a multiplication with the
  addition that follows it (Go leaves that to the target architecture). NaN and the
  infinities are not modelled: the model is that of Go for operands and results of
  magnitude below \<open>2^1024\<close>.
\<close>

type_synonym float64 = real

definition roundHalfEven :: "real \<Rightarrow> int" where
  "roundHalfEven y =
     (let f = \<lfloor>y\<rfloor>; r = y - of_int f in
      if r < 1 / 2 then f
      else if r > 1 / 2 then f + 1
      else if even f then f else f + 1)"

fun binadeUp :: "nat \<Rightarrow> real \<Rightarrow> real \<Rightarrow> real" where
  "binadeUp 0 p ax = p"
| "binadeUp (Suc k) p ax = (if 2 * p \<le> ax then binadeUp k (2 * p) ax else p)"

fun binadeDown :: "nat \<Rightarrow> real \<Rightarrow> real \<Rightarrow> real" where
  "binadeDown 0 p ax = p"
| "binadeDown (Suc k) p ax = (if ax < p then binadeDown k (p / 2) ax else p)"

definition binade :: "real \<Rightarrow> real" where
  "binade ax = (if 1 \<le> ax then binadeUp 1023 1 ax else binadeDown 1022 1 ax)"

definition round64 :: "real \<Rightarrow> float64" where
  "round64 x =
     (let spacing = binade \<bar>x\<bar> / 2 ^ 52 in
      of_int (roundHalfEven (x / spacing)) * spacing)"

definition fadd :: "float64 \<Rightarrow> float64 \<Rightarrow> float64" where
  "fadd a b = round64 (a + b)"

definition fsub :: "float64 \<Rightarrow> float64 \<Rightarrow> float64" where
  "fsub a b = round64 (a - b)"

definition fmul :: "float64 \<Rightarrow> float64 \<Rightarrow> float64" where
  "fmul a b = round64 (a * b)"

record Price =
  Product :: string
  Price :: float64
  Currency :: string

record PriceService =
  prices :: "Price list"

text \<open>
  \<open>loadPricesFromCSV\<close>. The file system and the CSV reader are outside the program: the
  argument \<open>file\<close> is what \<open>os.Open\<close> and then \<open>reader.ReadAll\<close> yield for the path (an
  error of either, or the records), \<open>ParseFloat\<close> is \<open>strconv.ParseFloat(_, 64)\<close>.
\<close>

fun loadRecords ::
  "(string \<Rightarrow> error + float64) \<Rightarrow> nat \<Rightarrow> string list list \<Rightarrow> PriceService
     \<Rightarrow> error option \<times> PriceService" where
  "loadRecords ParseFloat i [] ps = (None, ps)"
| "loadRecords ParseFloat i (record # rest) ps =
     (if length record \<noteq> 3 then (Some (ErrInvalidRecord (i + 2) (length record)), ps)
      else case ParseFloat (record ! 1) of
             Inl err \<Rightarrow> (Some (ErrInvalidPrice (i + 2) err), ps)
           | Inr price \<Rightarrow>
               loadRecords ParseFloat (i + 1) rest
                 (ps\<lparr>prices := prices ps @
                    [\<lparr>Product = TrimSpace (record ! 0), Price = price,
                      Currency = TrimSpace (record ! 2)\<rparr>]\<rparr>))"

definition loadPricesFromCSV ::
  "(string \<Rightarrow> error + float64) \<Rightarrow> error + (error + string list list) \<Rightarrow> PriceService
     \<Rightarrow> error option \<times> PriceService" where
  "loadPricesFromCSV ParseFloat file ps =
     (case file of
        Inl err \<Rightarrow> (Some (ErrOpenCSV err), ps)
      | Inr reader \<Rightarrow>
          (case reader of
             Inl err \<Rightarrow> (Some (ErrReadCSV err), ps)
           | Inr records \<Rightarrow>
               if length records < 2 then (Some ErrTooFewRecords, ps)
               else loadRecords ParseFloat 0 (drop 1 records) ps))"

definition NewPriceService ::
  "(string \<Rightarrow> error + float64) \<Rightarrow> error + (error + string list list) \<Rightarrow> error + PriceService" where
  "NewPriceService ParseFloat file =
     (let service = \<lparr>prices = []\<rparr> in
      case loadPricesFromCSV ParseFloat file service of
        (Some err, service') \<Rightarrow> Inl (ErrLoadPrices err)
      | (None, service') \<Rightarrow> Inr service')"

definition GetProductsByPrice :: "PriceService \<Rightarrow> float64 \<Rightarrow> error + Price list" where
  "GetProductsByPrice ps price =
     (let matchingProducts = filter (\<lambda>p. Price.Price p = price) (prices ps) in
      if length matchingProducts = 0 then Inl (ErrNoProductsWithPrice price)
      else Inr matchingProducts)"

definition GetProductsByPriceRange ::
  "PriceService \<Rightarrow> float64 \<Rightarrow> float64 \<Rightarrow> error + Price list" where
  "GetProductsByPriceRange ps minPrice maxPrice =
     (if minPrice > maxPrice then Inl ErrMinGreaterThanMax
      else Inr (filter (\<lambda>p. Price.Price p \<ge> minPrice \<and> Price.Price p \<le> maxPrice) (prices ps)))"

text \<open>
  \<open>fuzzyMatch\<close>. The inner loop runs over the product words for one description word and
  stops at the first product word that matches (\<open>break\<close>); the outer loop counts the
  description words for which it stopped that way.
\<close>

definition wordsMatch :: "string \<Rightarrow> string \<Rightarrow> bool" where
  "wordsMatch dWord pWord =
     (let cleanPWord = Trim pWord ''/-,.'';
          cleanDWord = Trim dWord ''/-,.'' in
      if length cleanPWord > 2 \<and> (Contains cleanDWord cleanPWord \<or> Contains cleanPWord cleanDWord)
      then True
      else if cleanPWord = ''1-2'' \<and> (cleanDWord = ''2'' \<or> cleanDWord = ''1'') then True
      else if cleanPWord = ''3'' \<and> (cleanDWord = ''3'' \<or> cleanDWord = ''three'') then True
      else if cleanPWord = ''4'' \<and> (cleanDWord = ''4'' \<or> cleanDWord = ''four'') then True
      else if cleanPWord = ''pers'' \<and> (cleanDWord = ''people'' \<or> cleanDWord = ''person'') then True
      else False)"

fun prodWordsLoop :: "string \<Rightarrow> string list \<Rightarrow> bool" where
  "prodWordsLoop dWord [] = False"
| "prodWordsLoop dWord (pWord # rest) =
     (if wordsMatch dWord pWord then True else prodWordsLoop dWord rest)"

fun descWordsLoop :: "string list \<Rightarrow> string list \<Rightarrow> nat \<Rightarrow> nat" where
  "descWordsLoop [] prodWords matchCount = matchCount"
| "descWordsLoop (dWord # rest) prodWords matchCount =
     descWordsLoop rest prodWords
       (if prodWordsLoop dWord prodWords then matchCount + 1 else matchCount)"

definition fuzzyMatch :: "string \<Rightarrow> string \<Rightarrow> bool" where
  "fuzzyMatch description productName =
     (let desc = ToLower (TrimSpace description);
          prod = ToLower (TrimSpace productName) in
      if desc = [] \<or> prod = [] then False
      else if desc = prod then True
      else if Contains desc prod \<or> Contains prod desc then True
      else
        let descWords = Fields desc;
            prodWords = Fields prod in
        if length prodWords = 0 then False
        else
          let matchCount = descWordsLoop descWords prodWords 0;
              threshold = fmul (real (length prodWords)) (round64 (4 / 10)) in
          real matchCount \<ge> threshold)"

text \<open>
  The count the specification describes: the product words that are hit by some
  description word.
\<close>

definition productWordHits :: "string list \<Rightarrow> string list \<Rightarrow> nat" where
  "productWordHits descWords prodWords =
     length (filter (\<lambda>pWord. list_ex (\<lambda>dWord. wordsMatch dWord pWord) descWords) prodWords)"

text \<open>
  The loop of strategy 4 that keeps the closest price. The module is built with Go 1.24,
  where the loop variable is fresh in every iteration, so \<open>closest = &p\<close> keeps the
  entry of that iteration.
\<close>

fun closestLoop :: "float64 \<Rightarrow> Price list \<Rightarrow> Price option \<Rightarrow> float64 \<Rightarrow> Price option" where
  "closestLoop amount [] closest minDiff = closest"
| "closestLoop amount (p # rest) closest minDiff =
     (let diff = fsub amount (Price.Price p);
          diff = (if diff < 0 then - diff else diff) in
      if diff < minDiff then closestLoop amount rest (Some p) diff
      else closestLoop amount rest closest minDiff)"

definition FindBestProductMatch :: "PriceService \<Rightarrow> float64 \<Rightarrow> string \<Rightarrow> Price option" where
  "FindBestProductMatch ps amount description =
     (let products = GetProductsByPrice ps amount in
      case (case products of Inr [p] \<Rightarrow> Some p | _ \<Rightarrow> None) of
        Some p \<Rightarrow> Some p
      | None \<Rightarrow>
      (case (if description \<noteq> [] then find (\<lambda>p. fuzzyMatch description (Price.Product p)) (prices ps)
             else None) of
        Some p \<Rightarrow> Some p
      | None \<Rightarrow>
      (case (case products of
               Inr (p0 # p1 # others) \<Rightarrow>
                 if description \<noteq> [] then
                   (case find (\<lambda>p. fuzzyMatch description (Price.Product p)) (p0 # p1 # others) of
                      Some p \<Rightarrow> Some p
                    | None \<Rightarrow> Some p0)
                 else None
             | _ \<Rightarrow> None) of
        Some p \<Rightarrow> Some p
      | None \<Rightarrow>
          (let tolerance = fmul amount (round64 (5 / 100)) in
           case GetProductsByPriceRange ps (fsub amount tolerance) (fadd amount tolerance) of
             Inr (r0 # others) \<Rightarrow>
               (case (if description \<noteq> []
                      then find (\<lambda>p. fuzzyMatch description (Price.Product p)) (r0 # others)
                      else None) of
                  Some p \<Rightarrow> Some p
                | None \<Rightarrow> closestLoop amount (r0 # others) None (fadd tolerance 1))
           | _ \<Rightarrow> None))))"


text \<open>
  The window and the distance as strategy 4 computes them in \<open>float64\<close>: the tolerance is
  the rounded product of the amount and 0.05, the bounds are the rounded difference and
  sum, the distance is the magnitude of the rounded difference.
\<close>

definition inWindow64 :: "float64 \<Rightarrow> float64 \<Rightarrow> bool" where
  "inWindow64 amount price =
     (let tolerance = fmul amount (round64 (5 / 100)) in
      fsub amount tolerance \<le> price \<and> price \<le> fadd amount tolerance)"


section \<open>Transactions (pkg/entities)\<close>

text \<open>
  \<open>time.Time\<close> is an instant in nanoseconds, \<open>time.Duration\<close> a number of nanoseconds.
  The two fields of type \<open>any\<close> hold an opaque payload, the pointer fields \<open>Product\<close> and
  \<open>ProductPrice\<close> are \<open>None\<close> for \<open>nil\<close>. A struct is passed and assigned by value.
\<close>

type_synonym Time = int
type_synonym Duration = int

definition Hour :: Duration where
  "Hour = 3600000000000"

definition After :: "Time \<Rightarrow> Time \<Rightarrow> bool" where
  "After t u = (t > u)"

record Transaction =
  ID :: string
  ExternalID :: string
  Source :: string
  Amount :: float64
  Currency :: string
  Status :: string
  CreatedAt :: Time
  CustomerID :: string
  Description :: string
  PaymentMethod :: string
  ReceiptURL :: string
  Metadata :: "(string \<times> string) list"
  TransactionType :: string
  Data :: "string option"
  TransferData :: "string option"
  CachedAt :: Time
  Product :: "string option"
  ProductPrice :: "float64 option"

section \<open>Transaction service: enrichment (internal/services)\<close>

text \<open>The package variable \<open>PriceService\<close> is a pointer: \<open>None\<close> when it is \<open>nil\<close>.\<close>

definition enrichTransactionWithProduct :: "PriceService option \<Rightarrow> Transaction \<Rightarrow> Transaction" where
  "enrichTransactionWithProduct priceService transaction =
     (case priceService of
        None \<Rightarrow> transaction
      | Some ps \<Rightarrow>
          (case FindBestProductMatch ps (Amount transaction) (Description transaction) of
             Some matchedProduct \<Rightarrow>
               (let enrichedTransaction = transaction;
                    enrichedTransaction =
                      enrichedTransaction\<lparr>Transaction.Product := Some (Price.Product matchedProduct)\<rparr>;
                    enrichedTransaction =
                      enrichedTransaction\<lparr>ProductPrice := Some (Price.Price matchedProduct)\<rparr>
                in enrichedTransaction)
           | None \<Rightarrow> transaction))"

definition enrichTransactionsWithProducts ::
  "PriceService option \<Rightarrow> Transaction list \<Rightarrow> Transaction list" where
  "enrichTransactionsWithProducts priceService transactions =
     (case priceService of
        None \<Rightarrow> transactions
      | Some ps \<Rightarrow> map (enrichTransactionWithProduct priceService) transactions)"

section \<open>Cache (pkg/cache over github.com/patrickmn/go-cache)\<close>

text \<open>
  The library cache is a map from keys to items; an item holds the object and its
  expiration instant, 0 for none. Its map is an association list with distinct keys: the
  order of the list is the order in which \<open>Items\<close> happens to be ranged over, which Go
  leaves open. \<open>Set\<close> with a positive duration expires the item that long after the
  current instant; \<open>Get\<close> and \<open>Items\<close> leave out the items whose expiration has passed.
\<close>

datatype cache_object = TransactionObject Transaction | PriceObject Price

record Item =
  Object :: cache_object
  Expiration :: Time

record gocache =
  defaultExpiration :: Duration
  items :: "(string \<times> Item) list"

definition expired :: "Time \<Rightarrow> Item \<Rightarrow> bool" where
  "expired now item = (Expiration item > 0 \<and> now > Expiration item)"

definition gocache_Set :: "Time \<Rightarrow> string \<Rightarrow> cache_object \<Rightarrow> Duration \<Rightarrow> gocache \<Rightarrow> gocache" where
  "gocache_Set now k x d c =
     (let d = (if d = 0 then defaultExpiration c else d);
          e = (if d > 0 then now + d else 0)
      in c\<lparr>items := AList.update k \<lparr>Object = x, Expiration = e\<rparr> (items c)\<rparr>)"

definition gocache_Get :: "Time \<Rightarrow> string \<Rightarrow> gocache \<Rightarrow> cache_object option" where
  "gocache_Get now k c =
     (case map_of (items c) k of
        None \<Rightarrow> None
      | Some item \<Rightarrow> if expired now item then None else Some (Object item))"

definition gocache_Items :: "Time \<Rightarrow> gocache \<Rightarrow> (string \<times> Item) list" where
  "gocache_Items now c = filter (\<lambda>(k, item). \<not> expired now item) (items c)"

definition cache_SetTransaction ::
  "Time \<Rightarrow> string \<Rightarrow> Transaction \<Rightarrow> Duration \<Rightarrow> gocache \<Rightarrow> gocache" where
  "cache_SetTransaction now key transaction expiration c =
     (let transactionKey = ''transaction:'' @ key in
      gocache_Set now transactionKey (TransactionObject transaction) expiration c)"

definition cache_GetTransaction :: "Time \<Rightarrow> string \<Rightarrow> gocache \<Rightarrow> Transaction option" where
  "cache_GetTransaction now key c =
     (let transactionKey = ''transaction:'' @ key in
      case gocache_Get now transactionKey c of
        Some (TransactionObject transaction) \<Rightarrow> Some transaction
      | _ \<Rightarrow> None)"

fun collectTransactions :: "string \<Rightarrow> (string \<times> Item) list \<Rightarrow> Transaction list" where
  "collectTransactions pattern [] = []"
| "collectTransactions pattern ((key, item) # rest) =
     (if HasPrefix key ''transaction:'' \<and> (pattern = [] \<or> Contains key pattern)
      then (case Object item of
              TransactionObject transaction \<Rightarrow> transaction # collectTransactions pattern rest
            | PriceObject price \<Rightarrow> collectTransactions pattern rest)
      else collectTransactions pattern rest)"

definition cache_GetTransactions :: "Time \<Rightarrow> string \<Rightarrow> gocache \<Rightarrow> Transaction list" where
  "cache_GetTransactions now pattern c = collectTransactions pattern (gocache_Items now c)"

section \<open>Transaction repository (pkg/repository)\<close>

definition TRANSACTION_LIMIT_MIN :: int where "TRANSACTION_LIMIT_MIN = 1"
definition TRANSACTION_LIMIT_DEFAULT :: int where "TRANSACTION_LIMIT_DEFAULT = 25"
definition TRANSACTION_LIMIT_MAX :: int where "TRANSACTION_LIMIT_MAX = 1000"

text \<open>
  A provider adapter (interface \<open>Transactions\<close>) is given by what its two methods return.
  The repository holds three of them, each possibly \<open>nil\<close>.
\<close>

record Transactions =
  GetLatestTransactions :: "int \<Rightarrow> error + Transaction list"
  client_GetTransactionByID :: "string \<Rightarrow> error + Transaction"

record TransactionRepository =
  stripeClient :: "Transactions option"
  vippsClient :: "Transactions option"
  zettleClient :: "Transactions option"

text \<open>
  The state a repository operation works on: the cache, the clock (it does not advance
  within one operation, which is short against the 24 hours of an entry), and a trace
  that records each entry into \<open>RefreshCache\<close> and each call of an adapter.
\<close>

datatype event =
    RefreshCacheCalled
  | GetLatestTransactionsCalled string int
  | GetTransactionByIDCalled string string

record world =
  cache :: gocache
  clock :: Time
  trace :: "event list"

text \<open>
  \<open>sort.Slice(x, less)\<close>, as an insertion sort by \<open>less\<close>. The library's algorithm is
  not stable; what is proved below about the result does not depend on how elements
  that compare equal are ordered.
\<close>

fun insertBy :: "('a \<Rightarrow> 'a \<Rightarrow> bool) \<Rightarrow> 'a \<Rightarrow> 'a list \<Rightarrow> 'a list" where
  "insertBy lessFn x [] = [x]"
| "insertBy lessFn x (y # ys) = (if lessFn x y then x # y # ys else y # insertBy lessFn x ys)"

definition sort_Slice :: "('a \<Rightarrow> 'a \<Rightarrow> bool) \<Rightarrow> 'a list \<Rightarrow> 'a list" where
  "sort_Slice lessFn xs = foldr (insertBy lessFn) xs []"

definition cachedNewestFirst :: "world \<Rightarrow> Transaction list" where
  "cachedNewestFirst w =
     (let cachedTransactions = cache_GetTransactions (clock w) [] (cache w) in
      sort_Slice (\<lambda>a b. After (CreatedAt a) (CreatedAt b)) cachedTransactions)"

text \<open>One of the three blocks of \<open>RefreshCache\<close>: fetch from one adapter, if configured.\<close>

definition fetchFrom ::
  "string \<Rightarrow> Transactions option \<Rightarrow> Transaction list \<times> world \<Rightarrow> Transaction list \<times> world" where
  "fetchFrom name client st =
     (case st of (allTransactions, w) \<Rightarrow>
        (case client of
           None \<Rightarrow> (allTransactions, w)
         | Some c \<Rightarrow>
             (let w' = w\<lparr>trace := trace w @ [GetLatestTransactionsCalled name 100]\<rparr> in
              case GetLatestTransactions c 100 of
                Inl err \<Rightarrow> (allTransactions, w')
              | Inr transactions \<Rightarrow> (allTransactions @ transactions, w'))))"

definition cacheTransaction :: "world \<Rightarrow> Transaction \<Rightarrow> world" where
  "cacheTransaction w transaction =
     w\<lparr>cache := cache_SetTransaction (clock w) (ID transaction) transaction (24 * Hour) (cache w)\<rparr>"

definition RefreshCache :: "TransactionRepository \<Rightarrow> world \<Rightarrow> error option \<times> world" where
  "RefreshCache r w =
     (let w0 = w\<lparr>trace := trace w @ [RefreshCacheCalled]\<rparr>;
          st = fetchFrom PAYMENT_SOURCE_STRIPE (stripeClient r) ([], w0);
          st = fetchFrom PAYMENT_SOURCE_VIPPS (vippsClient r) st;
          st = fetchFrom PAYMENT_SOURCE_ZETTLE (zettleClient r) st
      in case st of (allTransactions, w3) \<Rightarrow> (None, foldl cacheTransaction w3 allTransactions))"

text \<open>The part of \<open>GetTransactions\<close> after the call of \<open>RefreshCache\<close>, given what it returned.\<close>

definition afterRefresh ::
  "int \<Rightarrow> error option \<times> world \<Rightarrow> (error + Transaction list) \<times> world" where
  "afterRefresh limit refreshed =
     (case refreshed of
        (Some err, w) \<Rightarrow> (Inl (ErrRefreshFailed err), w)
      | (None, w) \<Rightarrow>
          (let cachedTransactions = cachedNewestFirst w in
           if int (length cachedTransactions) > limit
           then (Inr (take (nat limit) cachedTransactions), w)
           else (Inr cachedTransactions, w)))"

definition clampLimit :: "int \<Rightarrow> int" where
  "clampLimit limit =
     (let limit = (if limit < TRANSACTION_LIMIT_MIN then TRANSACTION_LIMIT_DEFAULT else limit);
          limit = (if limit > TRANSACTION_LIMIT_MAX then TRANSACTION_LIMIT_MAX else limit)
      in limit)"

definition GetTransactions ::
  "TransactionRepository \<Rightarrow> world \<Rightarrow> int \<Rightarrow> (error + Transaction list) \<times> world" where
  "GetTransactions r w limit =
     (let limit = clampLimit limit;
          cachedTransactions = cachedNewestFirst w in
      if int (length cachedTransactions) \<ge> limit
      then (Inr (take (nat limit) cachedTransactions), w)
      else if length cachedTransactions > 0
      then (Inr cachedTransactions, w)
      else afterRefresh limit (RefreshCache r w))"

text \<open>One of the three blocks of \<open>GetTransactionByID\<close>: ask one adapter, if configured.\<close>

definition lookupIn ::
  "string \<Rightarrow> Transactions option \<Rightarrow> string \<Rightarrow> world \<Rightarrow> Transaction option \<times> world" where
  "lookupIn name client ident w =
     (case client of
        None \<Rightarrow> (None, w)
      | Some c \<Rightarrow>
          (let w' = w\<lparr>trace := trace w @ [GetTransactionByIDCalled name ident]\<rparr> in
           case client_GetTransactionByID c ident of
             Inr transaction \<Rightarrow> (Some transaction, cacheTransaction w' transaction)
           | Inl err \<Rightarrow> (None, w')))"

definition GetTransactionByID ::
  "TransactionRepository \<Rightarrow> world \<Rightarrow> string \<Rightarrow> (error + Transaction) \<times> world" where
  "GetTransactionByID r w ident =
     (case cache_GetTransaction (clock w) ident (cache w) of
        Some transaction \<Rightarrow> (Inr transaction, w)
      | None \<Rightarrow>
          (case lookupIn PAYMENT_SOURCE_STRIPE (stripeClient r) ident w of
             (Some transaction, w1) \<Rightarrow> (Inr transaction, w1)
           | (None, w1) \<Rightarrow>
               (case lookupIn PAYMENT_SOURCE_VIPPS (vippsClient r) ident w1 of
                  (Some transaction, w2) \<Rightarrow> (Inr transaction, w2)
                | (None, w2) \<Rightarrow>
                    (case lookupIn PAYMENT_SOURCE_ZETTLE (zettleClient r) ident w2 of
                       (Some transaction, w3) \<Rightarrow> (Inr transaction, w3)
                     | (None, w3) \<Rightarrow> (Inl (ErrTransactionNotFound ident), w3)))))"


section \<open>Transaction service and start-up (internal/services)\<close>

definition svc_GetTransactions ::
  "PriceService option \<Rightarrow> TransactionRepository \<Rightarrow> world \<Rightarrow> int
     \<Rightarrow> (error + Transaction list) \<times> world" where
  "svc_GetTransactions priceService r w limit =
     (case GetTransactions r w limit of
        (Inl err, w') \<Rightarrow> (Inl err, w')
      | (Inr transactions, w') \<Rightarrow>
          (Inr (enrichTransactionsWithProducts priceService transactions), w'))"

definition svc_GetTransactionByID ::
  "PriceService option \<Rightarrow> TransactionRepository \<Rightarrow> world \<Rightarrow> string
     \<Rightarrow> (error + Transaction) \<times> world" where
  "svc_GetTransactionByID priceService r w ident =
     (case GetTransactionByID r w ident of
        (Inl err, w') \<Rightarrow> (Inl err, w')
      | (Inr transaction, w') \<Rightarrow>
          (Inr (enrichTransactionWithProduct priceService transaction), w'))"

text \<open>
  \<open>InitializeServices\<close>: \<open>logger.Fatal\<close> ends the process. \<open>absErr\<close> is the error of
  \<open>filepath.Abs\<close>, if any.
\<close>

datatype startup = Fatal error | Initialized PriceService

definition InitializeServices ::
  "(string \<Rightarrow> error + float64) \<Rightarrow> error option \<Rightarrow> error + (error + string list list) \<Rightarrow> startup" where
  "InitializeServices ParseFloat absErr file =
     (case absErr of
        Some err \<Rightarrow> Fatal err
      | None \<Rightarrow>
          (case NewPriceService ParseFloat file of
             Inl err \<Rightarrow> Fatal err
           | Inr service \<Rightarrow> Initialized service))"


section \<open>Reference notions for the repository\<close>

text \<open>
  What one adapter contributes to a refresh: its transactions, or nothing when it is not
  configured or its call fails.
\<close>

definition fetched :: "Transactions option \<Rightarrow> Transaction list" where
  "fetched client =
     (case client of
        None \<Rightarrow> []
      | Some c \<Rightarrow> (case GetLatestTransactions c 100 of Inl err \<Rightarrow> [] | Inr transactions \<Rightarrow> transactions))"

definition fetchCalls :: "string \<Rightarrow> Transactions option \<Rightarrow> event list" where
  "fetchCalls name client =
     (case client of None \<Rightarrow> [] | Some c \<Rightarrow> [GetLatestTransactionsCalled name 100])"

text \<open>The cache entry that holds a transaction stored at instant \<open>now\<close> for 24 hours.\<close>

definition entry24h :: "Time \<Rightarrow> Transaction \<Rightarrow> Item" where
  "entry24h now transaction =
     \<lparr>Object = TransactionObject transaction, Expiration = now + 24 * Hour\<rparr>"

definition upsert :: "Time \<Rightarrow> (string \<rightharpoonup> Item) \<Rightarrow> Transaction \<Rightarrow> (string \<rightharpoonup> Item)" where
  "upsert now m transaction = m(''transaction:'' @ ID transaction \<mapsto> entry24h now transaction)"

text \<open>
  The adapters that are configured, in the order stripe, vipps, zettle, and the lookup the
  specification describes: ask them in this order, stop at the first that succeeds.
\<close>

definition configured :: "TransactionRepository \<Rightarrow> (string \<times> Transactions) list" where
  "configured r =
     (case stripeClient r of None \<Rightarrow> [] | Some c \<Rightarrow> [(PAYMENT_SOURCE_STRIPE, c)]) @
     (case vippsClient r of None \<Rightarrow> [] | Some c \<Rightarrow> [(PAYMENT_SOURCE_VIPPS, c)]) @
     (case zettleClient r of None \<Rightarrow> [] | Some c \<Rightarrow> [(PAYMENT_SOURCE_ZETTLE, c)])"

fun firstSuccess ::
  "(string \<times> Transactions) list \<Rightarrow> string \<Rightarrow> Transaction option \<times> event list" where
  "firstSuccess [] ident = (None, [])"
| "firstSuccess ((name, c) # rest) ident =
     (case client_GetTransactionByID c ident of
        Inr transaction \<Rightarrow> (Some transaction, [GetTransactionByIDCalled name ident])
      | Inl err \<Rightarrow>
          (case firstSuccess rest ident of
             (found, calls) \<Rightarrow> (found, GetTransactionByIDCalled name ident # calls)))"

definition newestFirst :: "Transaction list \<Rightarrow> bool" where
  "newestFirst transactions = sorted_wrt (\<lambda>a b. CreatedAt a \<ge> CreatedAt b) transactions"

section \<open>Fixtures\<close>

text \<open>The price list of the matching test of the repository, and a transaction.\<close>

definition testPrices :: PriceService where
  "testPrices =
     \<lparr>prices =
        [\<lparr>Price.Product = ''Cabin'', Price.Price = 650, Price.Currency = ''NOK''\<rparr>,
         \<lparr>Price.Product = ''Caravan/motorhome/tent 1-2 pers'', Price.Price = 390, Price.Currency = ''NOK''\<rparr>,
         \<lparr>Price.Product = ''Caravan/motorhome/tent 3 pers'', Price.Price = 410, Price.Currency = ''NOK''\<rparr>,
         \<lparr>Price.Product = ''Caravan/motorhome/tent 4 pers'', Price.Price = 430, Price.Currency = ''NOK''\<rparr>,
         \<lparr>Price.Product = ''Washing machine'', Price.Price = 40, Price.Currency = ''NOK''\<rparr>,
         \<lparr>Price.Product = ''Bed linen'', Price.Price = 75, Price.Currency = ''NOK''\<rparr>,
         \<lparr>Price.Product = ''Shower'', Price.Price = 15, Price.Currency = ''NOK''\<rparr>]\<rparr>"

definition sampleTransaction :: "string \<Rightarrow> float64 \<Rightarrow> Time \<Rightarrow> Transaction" where
  "sampleTransaction ident amount created =
     \<lparr>ID = ident, ExternalID = ident, Source = ''stripe'', Amount = amount,
      Currency = ''NOK'', Status = ''succeeded'', CreatedAt = created, CustomerID = [],
      Description = [], PaymentMethod = ''card'', ReceiptURL = [], Metadata = [],
      TransactionType = ''charge'', Data = None, TransferData = None, CachedAt = 0,
      Product = None, ProductPrice = None\<rparr>"

definition failingClient :: Transactions where
  "failingClient =
     \<lparr>GetLatestTransactions = (\<lambda>limit. Inl (External ''unavailable'')),
      client_GetTransactionByID = (\<lambda>ident. Inl (External ''not found''))\<rparr>"

definition sampleClient :: "Transaction list \<Rightarrow> Transactions" where
  "sampleClient transactions =
     \<lparr>GetLatestTransactions = (\<lambda>limit. Inr (take (nat limit) transactions)),
      client_GetTransactionByID =
        (\<lambda>ident. case find (\<lambda>t. ID t = ident) transactions of
                    Some t \<Rightarrow> Inr t
                  | None \<Rightarrow> Inl (External ''not found''))\<rparr>"

definition emptyWorld :: world where
  "emptyWorld = \<lparr>cache = \<lparr>defaultExpiration = 24 * Hour, items = []\<rparr>, clock = 1000, trace = []\<rparr>"

definition txOld :: Transaction where
  "txOld = sampleTransaction ''tx_old'' 650 100"

definition txNew :: Transaction where
  "txNew = sampleTransaction ''tx_new'' 15 200"

definition txZettle :: Transaction where
  "txZettle = (sampleTransaction ''tx_z'' 999 150)\<lparr>Source := ''zettle''\<rparr>"

definition sampleRepository :: TransactionRepository where
  "sampleRepository =
     \<lparr>stripeClient = Some (sampleClient [txOld, txNew]),
      vippsClient = Some failingClient,
      zettleClient = Some (sampleClient [txZettle])\<rparr>"


definition cachedWorld :: world where
  "cachedWorld = foldl cacheTransaction emptyWorld [txOld, txNew]"

section \<open>Properties of the status taxonomy\<close>

lemma of_char_toLowerChar:
  "(of_char (toLowerChar c) :: nat) =
     (if 65 \<le> (of_char c :: nat) \<and> (of_char c :: nat) \<le> 90 then of_char c + 32 else of_char c)"
  by (auto simp: toLowerChar_def)

lemma of_char_toUpperChar:
  "(of_char (toUpperChar c) :: nat) =
     (if 97 \<le> (of_char c :: nat) \<and> (of_char c :: nat) \<le> 122 then of_char c - 32 else of_char c)"
  by (auto simp: toUpperChar_def)

lemma char_eq_by_code: "(of_char c :: nat) = of_char d \<Longrightarrow> c = d"
  by (metis char_of_char)

lemma toLowerChar_idem: "toLowerChar (toLowerChar c) = toLowerChar c"
  by (rule char_eq_by_code) (auto simp: of_char_toLowerChar)

lemma toUpperChar_idem: "toUpperChar (toUpperChar c) = toUpperChar c"
  by (rule char_eq_by_code) (auto simp: of_char_toUpperChar)

lemma toUpperChar_toLowerChar: "toUpperChar (toLowerChar c) = toUpperChar c"
  by (rule char_eq_by_code) (auto simp: of_char_toUpperChar of_char_toLowerChar)

lemma ToLower_idem: "ToLower (ToLower s) = ToLower s"
  by (simp add: ToLower_def toLowerChar_idem)

lemma ToUpper_ToLower: "ToUpper (ToLower s) = ToUpper s"
  by (simp add: ToLower_def ToUpper_def toUpperChar_toLowerChar)

lemma ToUpper_idem: "ToUpper (ToUpper s) = ToUpper s"
  by (simp add: ToUpper_def toUpperChar_idem)

lemma equalFoldLoop_lower_keys:
  "list_all (\<lambda>(k, v). ToLower k = k) tbl \<Longrightarrow> equalFoldLoop s tbl = map_of tbl (ToLower s)"
  by (induction tbl) (auto simp: EqualFold_def)

lemma equalFoldLoop_upper_keys:
  assumes "list_all (\<lambda>(k, v). ToUpper k = k) tbl" and "ToUpper s = s"
  shows "equalFoldLoop (ToLower s) tbl = map_of tbl s"
  using assms(1)
proof (induction tbl)
  case Nil
  then show ?case by simp
next
  case (Cons kv tbl)
  obtain k v where kv: "kv = (k, v)" by (cases kv)
  from Cons.prems kv have up: "ToUpper k = k" by simp
  have "EqualFold (ToLower s) k \<longleftrightarrow> k = s"
  proof
    assume "EqualFold (ToLower s) k"
    then have "ToLower s = ToLower k" by (simp add: EqualFold_def ToLower_idem)
    then have "ToUpper (ToLower s) = ToUpper (ToLower k)" by simp
    then show "k = s" using up assms(2) by (simp add: ToUpper_ToLower)
  next
    assume "k = s"
    then show "EqualFold (ToLower s) k" by (simp add: EqualFold_def ToLower_idem)
  qed
  with Cons kv show ?case by auto
qed

lemma stripe_keys_lower: "list_all (\<lambda>(k, v). ToLower k = k) StripeStatusMapping"
  by code_simp

lemma vipps_keys_upper: "list_all (\<lambda>(k, v). ToUpper k = k) VippsStatusMapping"
  by code_simp

lemma zettle_keys_upper: "list_all (\<lambda>(k, v). ToUpper k = k) ZettleStatusMapping"
  by code_simp

lemma normalizeStripeStatus_lookup:
  "normalizeStripeStatus status = mapping_lookup StripeStatusMapping (ToLower status)"
  by (simp add: normalizeStripeStatus_def mapping_lookup_def
      equalFoldLoop_lower_keys [OF stripe_keys_lower] split: option.splits)

lemma normalizeVippsStatus_lookup:
  "ToUpper status = status \<Longrightarrow> normalizeVippsStatus status = mapping_lookup VippsStatusMapping status"
  by (simp add: normalizeVippsStatus_def mapping_lookup_def
      equalFoldLoop_upper_keys [OF vipps_keys_upper] split: option.splits)

lemma normalizeZettleStatus_lookup:
  "ToUpper status = status \<Longrightarrow> normalizeZettleStatus status = mapping_lookup ZettleStatusMapping status"
  by (simp add: normalizeZettleStatus_def mapping_lookup_def
      equalFoldLoop_upper_keys [OF zettle_keys_upper] split: option.splits)

lemma inferStatusFromCommonNames_scan:
  "inferStatusFromCommonNames status = keyword_scan (ToLower status)"
  by (simp add: inferStatusFromCommonNames_def keyword_scan_def keyword_categories_def)


text \<open>
  Claim C8. Status normalisation is a lookup in two tiers. For a source that is (up to
  case) stripe, vipps or zettle, the trimmed raw status is looked up, without regard to
  case, in that provider's mapping table, and a status the table does not have gives
  \<open>unknown\<close>. For every other source there is no table: the lowercased raw status is
  scanned for the keywords of the categories success, pending, processing, failure,
  cancellation, refund, expiry in this order, the first category with a keyword that
  occurs wins, and \<open>unknown\<close> results if none does. The three examples of the
  specification hold.
\<close>

theorem normalize_two_step:
  "NormalizeTransactionStatus providerStatus source =
     (let raw = ToUpper (TrimSpace providerStatus) in
      if ToLower source = ''stripe'' then mapping_lookup StripeStatusMapping (ToLower raw)
      else if ToLower source = ''vipps'' then mapping_lookup VippsStatusMapping raw
      else if ToLower source = ''zettle'' then mapping_lookup ZettleStatusMapping raw
      else keyword_scan (ToLower raw))
   \<and> NormalizeTransactionStatus ''CAPTURE'' ''vipps'' = ''succeeded''
   \<and> NormalizeTransactionStatus ''payment_failed'' ''some_new_provider'' = ''failed''
   \<and> NormalizeTransactionStatus ''totally_new_status'' ''stripe'' = ''unknown''"
proof -
  have general: "NormalizeTransactionStatus providerStatus source =
     (let raw = ToUpper (TrimSpace providerStatus) in
      if ToLower source = ''stripe'' then mapping_lookup StripeStatusMapping (ToLower raw)
      else if ToLower source = ''vipps'' then mapping_lookup VippsStatusMapping raw
      else if ToLower source = ''zettle'' then mapping_lookup ZettleStatusMapping raw
      else keyword_scan (ToLower raw))"
    by (simp add: NormalizeTransactionStatus_def Let_def PAYMENT_SOURCE_STRIPE_def
        PAYMENT_SOURCE_VIPPS_def PAYMENT_SOURCE_ZETTLE_def normalizeStripeStatus_lookup
        normalizeVippsStatus_lookup normalizeZettleStatus_lookup ToUpper_idem
        inferStatusFromCommonNames_scan)
  have e1: "NormalizeTransactionStatus ''CAPTURE'' ''vipps'' = ''succeeded''" by code_simp
  have e2: "NormalizeTransactionStatus ''payment_failed'' ''some_new_provider'' = ''failed''"
    by code_simp
  have e3: "NormalizeTransactionStatus ''totally_new_status'' ''stripe'' = ''unknown''"
    by code_simp
  from general e1 e2 e3 show ?thesis by blast
qed

theorem normalize_two_step_witness:
  "NormalizeTransactionStatus '' reserve'' ''Vipps'' = ''processing''
   \<and> NormalizeTransactionStatus ''Payment_Successful'' ''stripe'' = ''unknown''
   \<and> NormalizeTransactionStatus ''Payment_Successful'' ''paypal'' = ''succeeded''"
  unfolding normalize_two_step [THEN conjunct1]
  by code_simp

section \<open>Properties of the price matching engine\<close>

lemma filter_unique_index:
  assumes "i < length xs" and "P (xs ! i)"
    and "\<forall>j<length xs. j \<noteq> i \<longrightarrow> \<not> P (xs ! j)"
  shows "filter P xs = [xs ! i]"
proof -
  have split: "xs = take i xs @ xs ! i # drop (Suc i) xs"
    using assms(1) by (rule id_take_nth_drop)
  have "\<not> P x" if "x \<in> set (take i xs)" for x
  proof -
    from that obtain j where "j < i" "x = xs ! j"
      using assms(1) by (auto simp: in_set_conv_nth)
    with assms(1,3) show ?thesis by auto
  qed
  then have l: "filter P (take i xs) = []" by (simp add: filter_empty_conv)
  have "\<not> P x" if "x \<in> set (drop (Suc i) xs)" for x
  proof -
    from that obtain j where "j < length xs - Suc i" "x = xs ! (Suc i + j)"
      using assms(1) by (auto simp: in_set_conv_nth)
    with assms(1,3) show ?thesis by auto
  qed
  then have r: "filter P (drop (Suc i) xs) = []" by (simp add: filter_empty_conv)
  have "filter P xs = filter P (take i xs @ xs ! i # drop (Suc i) xs)"
    using split by simp
  also have "\<dots> = [xs ! i]" using l r assms(2) by simp
  finally show ?thesis .
qed


text \<open>
  Claim C7. If exactly one entry of the price list has a price equal to the amount, then
  \<open>FindBestProductMatch\<close> returns that entry, whatever the description is (the empty
  description included).
\<close>

theorem exact_price_unambiguous:
  assumes "i < length (prices ps)"
    and "Price.Price (prices ps ! i) = amount"
    and "\<forall>j<length (prices ps). j \<noteq> i \<longrightarrow> Price.Price (prices ps ! j) \<noteq> amount"
  shows "FindBestProductMatch ps amount description = Some (prices ps ! i)"
proof -
  have "filter (\<lambda>p. Price.Price p = amount) (prices ps) = [prices ps ! i]"
    using assms by (intro filter_unique_index) auto
  then show ?thesis
    by (simp add: FindBestProductMatch_def GetProductsByPrice_def)
qed

theorem exact_price_unambiguous_witness:
  "FindBestProductMatch
     \<lparr>prices = [\<lparr>Price.Product = ''Cabin'', Price.Price = 650, Price.Currency = ''NOK''\<rparr>,
                \<lparr>Price.Product = ''Shower'', Price.Price = 15, Price.Currency = ''NOK''\<rparr>]\<rparr> 650 []
   = Some \<lparr>Price.Product = ''Cabin'', Price.Price = 650, Price.Currency = ''NOK''\<rparr>"
  using exact_price_unambiguous [of 0
     "\<lparr>prices = [\<lparr>Price.Product = ''Cabin'', Price.Price = 650, Price.Currency = ''NOK''\<rparr>,
                \<lparr>Price.Product = ''Shower'', Price.Price = 15, Price.Currency = ''NOK''\<rparr>]\<rparr>" 650 "[]"]
  by (simp add: nth_Cons')


text \<open>
  Claim C10. Loading a price list from a file with fewer than two records fails, whatever
  the records are: \<open>loadPricesFromCSV\<close> returns an error and leaves the service as it
  was, \<open>NewPriceService\<close> returns that error wrapped, and \<open>InitializeServices\<close> ends the
  process. A file with the header row alone is such a file.
\<close>

theorem too_few_records_fail:
  assumes "length records < 2"
  shows "loadPricesFromCSV ParseFloat (Inr (Inr records)) ps = (Some ErrTooFewRecords, ps)
       \<and> NewPriceService ParseFloat (Inr (Inr records)) = Inl (ErrLoadPrices ErrTooFewRecords)
       \<and> InitializeServices ParseFloat None (Inr (Inr records)) = Fatal (ErrLoadPrices ErrTooFewRecords)"
  using assms
  by (simp add: loadPricesFromCSV_def NewPriceService_def InitializeServices_def)

theorem too_few_records_fail_witness:
  "length [[''Product'', ''Price'', ''Currency'']] < 2
   \<and> NewPriceService (\<lambda>s. Inl (External ''syntax'')) (Inr (Inr [[''Product'', ''Price'', ''Currency'']]))
       = Inl (ErrLoadPrices ErrTooFewRecords)
   \<and> InitializeServices (\<lambda>s. Inl (External ''syntax'')) None (Inr (Inr [[''Product'', ''Price'', ''Currency'']]))
       = Fatal (ErrLoadPrices ErrTooFewRecords)"
  using too_few_records_fail [of "[[''Product'', ''Price'', ''Currency'']]" "\<lambda>s. Inl (External ''syntax'')"]
  by simp

text \<open>
  Claim C5, as the code has it. \<open>fuzzyMatch\<close> counts the description words that match
  some product word, not the product words that are matched, and compares that count with
  40% of the number of product words. For the description "cabin key cabin linen cabin"
  and the product "Cabin with sauna and hot tub" neither string contains the other, the
  product has 6 words, and exactly one of them (cabin) is hit by a description word, which
  is below 40% of 6; but three description words hit a product word, and \<open>fuzzyMatch\<close>
  returns true.
\<close>

theorem fuzzyMatch_counts_description_words:
  "fuzzyMatch ''cabin key cabin linen cabin'' ''Cabin with sauna and hot tub''
   \<and> \<not> Contains ''cabin key cabin linen cabin'' ''cabin with sauna and hot tub''
   \<and> \<not> Contains ''cabin with sauna and hot tub'' ''cabin key cabin linen cabin''
   \<and> length (Fields ''cabin with sauna and hot tub'') = 6
   \<and> productWordHits (Fields ''cabin key cabin linen cabin'')
        (Fields ''cabin with sauna and hot tub'') = 1
   \<and> descWordsLoop (Fields ''cabin key cabin linen cabin'')
        (Fields ''cabin with sauna and hot tub'') 0 = 3"
  by code_simp






















text \<open>
  For large amounts the slack of 1 in \<open>minDiff := tolerance + 1\<close> is lost to rounding:
  with amount \<open>2^56\<close> (72057594037927936) and a single entry priced at the computed
  lower bound, the entry is in the computed window and still no match is returned. Hence the bound on the amount
  below.
\<close>

lemma tolerance_slack_lost:
  "inWindow64 72057594037927936 68454714336031536
   \<and> FindBestProductMatch
       \<lparr>prices = [\<lparr>Price.Product = ''Season'', Price.Price = 68454714336031536,
                   Price.Currency = ''NOK''\<rparr>]\<rparr>
       72057594037927936 []
     = None"
  by code_simp



section \<open>Properties of the enrichment step\<close>

text \<open>
  Claim C9. The enrichment step takes the transaction by value and returns a transaction
  that agrees with it on every field other than \<open>Product\<close> and \<open>ProductPrice\<close>. When the
  price matcher finds a match (and the price service exists), these two fields are the
  product name and the price of the match; when it finds none, the transaction is returned
  as it was given. There is no error result. The service operations leave the cache as the
  repository left it: enrichment does not write to a cached transaction.
\<close>

theorem enrich_frame:
  "(let enriched = enrichTransactionWithProduct priceService transaction in
      ID enriched = ID transaction
    \<and> ExternalID enriched = ExternalID transaction
    \<and> Source enriched = Source transaction
    \<and> Amount enriched = Amount transaction
    \<and> Transaction.Currency enriched = Transaction.Currency transaction
    \<and> Status enriched = Status transaction
    \<and> CreatedAt enriched = CreatedAt transaction
    \<and> CustomerID enriched = CustomerID transaction
    \<and> Description enriched = Description transaction
    \<and> PaymentMethod enriched = PaymentMethod transaction
    \<and> ReceiptURL enriched = ReceiptURL transaction
    \<and> Metadata enriched = Metadata transaction
    \<and> TransactionType enriched = TransactionType transaction
    \<and> Data enriched = Data transaction
    \<and> TransferData enriched = TransferData transaction
    \<and> CachedAt enriched = CachedAt transaction
    \<and> (case priceService of
         None \<Rightarrow> enriched = transaction
       | Some ps \<Rightarrow>
           (case FindBestProductMatch ps (Amount transaction) (Description transaction) of
              None \<Rightarrow> enriched = transaction
            | Some matchedProduct \<Rightarrow>
                Transaction.Product enriched = Some (Price.Product matchedProduct)
              \<and> ProductPrice enriched = Some (Price.Price matchedProduct))))
   \<and> snd (svc_GetTransactionByID priceService r w ident) = snd (GetTransactionByID r w ident)
   \<and> snd (svc_GetTransactions priceService r w limit) = snd (GetTransactions r w limit)"
  by (simp add: enrichTransactionWithProduct_def svc_GetTransactionByID_def
      svc_GetTransactions_def Let_def split: option.splits prod.splits sum.splits)

theorem enrich_frame_witness:
  "Transaction.Product (enrichTransactionWithProduct (Some testPrices) txOld) = Some ''Cabin''
   \<and> ProductPrice (enrichTransactionWithProduct (Some testPrices) txOld) = Some 650
   \<and> ID (enrichTransactionWithProduct (Some testPrices) txOld) = ID txOld
   \<and> enrichTransactionWithProduct (Some testPrices) txZettle = txZettle
   \<and> enrichTransactionWithProduct None txOld = txOld"
proof -
  have a: "FindBestProductMatch testPrices (Amount txOld) (Description txOld) =
      Some \<lparr>Price.Product = ''Cabin'', Price.Price = 650, Price.Currency = ''NOK''\<rparr>"
    by code_simp
  have b: "FindBestProductMatch testPrices (Amount txZettle) (Description txZettle) = None"
    by code_simp
  from enrich_frame [of "Some testPrices" txOld] enrich_frame [of "Some testPrices" txZettle]
    enrich_frame [of None txOld]
  show ?thesis
    by (simp add: Let_def a b)
qed

section \<open>Properties of the repository\<close>

lemma mset_insertBy: "mset (insertBy lessFn x ys) = add_mset x (mset ys)"
  by (induction ys) auto

lemma mset_sort_Slice: "mset (sort_Slice lessFn xs) = mset xs"
  by (induction xs) (auto simp: sort_Slice_def mset_insertBy)

lemma length_sort_Slice: "length (sort_Slice lessFn xs) = length xs"
  using mset_sort_Slice [of lessFn xs] by (metis size_mset)

lemma set_insertBy: "set (insertBy lessFn x ys) = insert x (set ys)"
  using mset_insertBy [of lessFn x ys] by (metis set_mset_add_mset_insert set_mset_mset)

lemma newestFirst_insertBy:
  "newestFirst ys \<Longrightarrow> newestFirst (insertBy (\<lambda>a b. After (CreatedAt a) (CreatedAt b)) x ys)"
proof (induction ys)
  case Nil
  then show ?case by (simp add: newestFirst_def)
next
  case (Cons y ys)
  then show ?case
    by (auto simp: newestFirst_def After_def set_insertBy)
qed

lemma newestFirst_sort_Slice:
  "newestFirst (sort_Slice (\<lambda>a b. After (CreatedAt a) (CreatedAt b)) xs)"
proof (induction xs)
  case Nil
  then show ?case by (simp add: sort_Slice_def newestFirst_def)
next
  case (Cons x xs)
  then show ?case
    using newestFirst_insertBy by (simp add: sort_Slice_def)
qed

lemma newestFirst_cached: "newestFirst (cachedNewestFirst w)"
  by (simp add: cachedNewestFirst_def newestFirst_sort_Slice)

lemma mset_cached:
  "mset (cachedNewestFirst w) = mset (cache_GetTransactions (clock w) [] (cache w))"
  by (simp add: cachedNewestFirst_def mset_sort_Slice)

lemma length_cached:
  "length (cachedNewestFirst w) = length (cache_GetTransactions (clock w) [] (cache w))"
  by (simp add: cachedNewestFirst_def length_sort_Slice)

lemma newestFirst_take: "newestFirst xs \<Longrightarrow> newestFirst (take n xs)"
  by (simp add: newestFirst_def sorted_wrt_take)

lemma clampLimit_eq:
  "clampLimit limit = (if limit < 1 then 25 else if limit > 1000 then 1000 else limit)"
  by (simp add: clampLimit_def TRANSACTION_LIMIT_MIN_def TRANSACTION_LIMIT_DEFAULT_def
      TRANSACTION_LIMIT_MAX_def)


text \<open>
  Claim C3. When the cache holds at least one transaction, \<open>GetTransactions\<close> replaces a
  limit below 1 by 25 and a limit above 1000 by 1000, and returns, without error and
  without touching the cache or calling an adapter, the first clamped-limit entries of the
  cached transactions ordered by creation time, newest first: exactly that many when the
  cache holds at least that many, and all of them when it holds fewer.
\<close>

theorem getTransactions_from_cache:
  assumes "cache_GetTransactions (clock w) [] (cache w) \<noteq> []"
  shows "let clamped = (if limit < 1 then 25 else if limit > 1000 then 1000 else limit);
             cached = cache_GetTransactions (clock w) [] (cache w);
             newest = cachedNewestFirst w in
           GetTransactions r w limit = (Inr (take (nat clamped) newest), w)
         \<and> mset newest = mset cached
         \<and> newestFirst newest
         \<and> newestFirst (take (nat clamped) newest)
         \<and> (if int (length cached) \<ge> clamped
            then length (take (nat clamped) newest) = nat clamped
            else take (nat clamped) newest = newest)"
proof -
  let ?newest = "cachedNewestFirst w"
  have pos: "0 < length ?newest"
    using assms by (simp add: length_cached)
  have "GetTransactions r w limit = (Inr (take (nat (clampLimit limit)) ?newest), w)"
    using pos by (simp add: GetTransactions_def Let_def)
  moreover have "int (length ?newest) \<ge> clampLimit limit
      \<Longrightarrow> length (take (nat (clampLimit limit)) ?newest) = nat (clampLimit limit)"
    by simp
  moreover have "\<not> int (length ?newest) \<ge> clampLimit limit
      \<Longrightarrow> take (nat (clampLimit limit)) ?newest = ?newest"
    by simp
  ultimately show ?thesis
    unfolding Let_def clampLimit_eq [symmetric]
    using newestFirst_cached [of w] newestFirst_take [OF newestFirst_cached, of _ w]
    by (simp add: mset_cached length_cached)
qed

theorem getTransactions_from_cache_witness:
  "cache_GetTransactions (clock cachedWorld) [] (cache cachedWorld) \<noteq> []
   \<and> GetTransactions sampleRepository cachedWorld 0 = (Inr [txNew, txOld], cachedWorld)
   \<and> GetTransactions sampleRepository cachedWorld 1 = (Inr [txNew], cachedWorld)"
proof -
  have h: "cache_GetTransactions (clock cachedWorld) [] (cache cachedWorld) \<noteq> []"
    by code_simp
  have e: "cachedNewestFirst cachedWorld = [txNew, txOld]"
    by code_simp
  from getTransactions_from_cache [OF h, of 0 sampleRepository]
    getTransactions_from_cache [OF h, of 1 sampleRepository] h
  show ?thesis
    by (simp add: Let_def e)
qed

lemma fetchFrom_eq:
  "fetchFrom name client (allTransactions, w) =
     (allTransactions @ fetched client, w\<lparr>trace := trace w @ fetchCalls name client\<rparr>)"
  by (simp add: fetchFrom_def fetched_def fetchCalls_def split: option.splits sum.splits)

lemma cacheTransaction_fields:
  "trace (cacheTransaction w t) = trace w"
  "clock (cacheTransaction w t) = clock w"
  "map_of (items (cache (cacheTransaction w t))) = upsert (clock w) (map_of (items (cache w))) t"
  by (simp_all add: cacheTransaction_def cache_SetTransaction_def gocache_Set_def Let_def
      Hour_def upsert_def entry24h_def update_conv')

lemma foldl_cacheTransaction_trace: "trace (foldl cacheTransaction w ts) = trace w"
  by (induction ts arbitrary: w) (simp_all add: cacheTransaction_fields)

lemma foldl_cacheTransaction_clock: "clock (foldl cacheTransaction w ts) = clock w"
  by (induction ts arbitrary: w) (simp_all add: cacheTransaction_fields)

lemma foldl_cacheTransaction_items:
  "map_of (items (cache (foldl cacheTransaction w ts))) =
     foldl (upsert (clock w)) (map_of (items (cache w))) ts"
  by (induction ts arbitrary: w) (simp_all add: cacheTransaction_fields)

lemma foldl_upsert_other:
  "k \<notin> (\<lambda>t. ''transaction:'' @ ID t) ` set ts \<Longrightarrow> foldl (upsert now) m ts k = m k"
  by (induction ts arbitrary: m) (auto simp: upsert_def)

lemma foldl_upsert_in:
  "t \<in> set ts \<Longrightarrow>
   \<exists>t'\<in>set ts. ID t' = ID t \<and>
      foldl (upsert now) m ts (''transaction:'' @ ID t) = Some (entry24h now t')"
proof (induction ts arbitrary: t rule: rev_induct)
  case Nil
  then show ?case by simp
next
  case (snoc x xs)
  show ?case
  proof (cases "ID x = ID t")
    case True
    then show ?thesis by (auto simp: upsert_def)
  next
    case False
    with snoc.prems have "t \<in> set xs" by auto
    from snoc.IH [OF this] False show ?thesis by (auto simp: upsert_def)
  qed
qed

lemma entry24h_visible:
  "map_of (items c) (''transaction:'' @ key) = Some (entry24h now t) \<Longrightarrow>
   cache_GetTransaction now key c = Some t"
  by (simp add: cache_GetTransaction_def gocache_Get_def expired_def entry24h_def Hour_def)



lemma RefreshCache_eq:
  "RefreshCache r w =
     (None,
      foldl cacheTransaction
        (w\<lparr>trace := trace w @ [RefreshCacheCalled]
              @ fetchCalls PAYMENT_SOURCE_STRIPE (stripeClient r)
              @ fetchCalls PAYMENT_SOURCE_VIPPS (vippsClient r)
              @ fetchCalls PAYMENT_SOURCE_ZETTLE (zettleClient r)\<rparr>)
        (fetched (stripeClient r) @ fetched (vippsClient r) @ fetched (zettleClient r)))"
  by (simp add: RefreshCache_def Let_def fetchFrom_eq)

text \<open>
  Claim C2. \<open>RefreshCache\<close> never returns an error. It asks every configured adapter,
  once and with limit 100, whatever the other adapters answered; an adapter that fails
  contributes nothing. Every transaction an adapter returned is then stored under its id
  with an expiration 24 hours after the current instant (a later transaction with the
  same id overwrites an earlier one) and can be read back from the cache; entries under
  other keys are left as they were.
\<close>

theorem refreshCache_independent_providers:
  "(let allTransactions =
          fetched (stripeClient r) @ fetched (vippsClient r) @ fetched (zettleClient r);
        w' = snd (RefreshCache r w) in
      fst (RefreshCache r w) = None
    \<and> trace w' = trace w @ [RefreshCacheCalled]
         @ fetchCalls ''stripe'' (stripeClient r)
         @ fetchCalls ''vipps'' (vippsClient r)
         @ fetchCalls ''zettle'' (zettleClient r)
    \<and> clock w' = clock w
    \<and> map_of (items (cache w')) = foldl (upsert (clock w)) (map_of (items (cache w))) allTransactions
    \<and> (\<forall>t\<in>set allTransactions. \<exists>t'\<in>set allTransactions. ID t' = ID t
          \<and> map_of (items (cache w')) (''transaction:'' @ ID t) = Some (entry24h (clock w) t')
          \<and> cache_GetTransaction (clock w') (ID t) (cache w') = Some t')
    \<and> (\<forall>k. k \<notin> (\<lambda>t. ''transaction:'' @ ID t) ` set allTransactions
          \<longrightarrow> map_of (items (cache w')) k = map_of (items (cache w)) k))"
proof -
  let ?all = "fetched (stripeClient r) @ fetched (vippsClient r) @ fetched (zettleClient r)"
  let ?w' = "snd (RefreshCache r w)"
  have err: "fst (RefreshCache r w) = None" by (simp add: RefreshCache_eq)
  have tr: "trace ?w' = trace w @ [RefreshCacheCalled]
         @ fetchCalls ''stripe'' (stripeClient r)
         @ fetchCalls ''vipps'' (vippsClient r)
         @ fetchCalls ''zettle'' (zettleClient r)"
    by (simp add: RefreshCache_eq foldl_cacheTransaction_trace PAYMENT_SOURCE_STRIPE_def
        PAYMENT_SOURCE_VIPPS_def PAYMENT_SOURCE_ZETTLE_def del: foldl_append)
  have cl: "clock ?w' = clock w"
    by (simp add: RefreshCache_eq foldl_cacheTransaction_clock del: foldl_append)
  have it: "map_of (items (cache ?w')) = foldl (upsert (clock w)) (map_of (items (cache w))) ?all"
    by (simp add: RefreshCache_eq foldl_cacheTransaction_items del: foldl_append)
  have present: "\<exists>t'\<in>set ?all. ID t' = ID t
          \<and> map_of (items (cache ?w')) (''transaction:'' @ ID t) = Some (entry24h (clock w) t')
          \<and> cache_GetTransaction (clock ?w') (ID t) (cache ?w') = Some t'"
    if "t \<in> set ?all" for t
  proof -
    from foldl_upsert_in [OF that, of "clock w" "map_of (items (cache w))"]
    obtain t' where t': "t' \<in> set ?all" "ID t' = ID t"
      "map_of (items (cache ?w')) (''transaction:'' @ ID t) = Some (entry24h (clock w) t')"
      unfolding it by blast
    from entry24h_visible [OF t'(3)] have
      "cache_GetTransaction (clock ?w') (ID t) (cache ?w') = Some t'"
      by (simp add: cl)
    with t' show ?thesis by blast
  qed
  have other: "map_of (items (cache ?w')) k = map_of (items (cache w)) k"
    if "k \<notin> (\<lambda>t. ''transaction:'' @ ID t) ` set ?all" for k
    unfolding it using that by (rule foldl_upsert_other)
  from err tr cl it present other show ?thesis
    unfolding Let_def by blast
qed

theorem refreshCache_independent_providers_witness:
  "fst (RefreshCache sampleRepository emptyWorld) = None
   \<and> trace (snd (RefreshCache sampleRepository emptyWorld)) =
       [RefreshCacheCalled, GetLatestTransactionsCalled ''stripe'' 100,
        GetLatestTransactionsCalled ''vipps'' 100, GetLatestTransactionsCalled ''zettle'' 100]
   \<and> map_of (items (cache (snd (RefreshCache sampleRepository emptyWorld)))) ''transaction:tx_z''
       = Some \<lparr>Object = TransactionObject txZettle, Expiration = 1000 + 24 * 3600000000000\<rparr>"
proof -
  have a: "fetched (stripeClient sampleRepository) @ fetched (vippsClient sampleRepository)
      @ fetched (zettleClient sampleRepository) = [txOld, txNew, txZettle]"
    by code_simp
  have c: "fetchCalls ''stripe'' (stripeClient sampleRepository)
      @ fetchCalls ''vipps'' (vippsClient sampleRepository)
      @ fetchCalls ''zettle'' (zettleClient sampleRepository)
      = [GetLatestTransactionsCalled ''stripe'' 100,
        GetLatestTransactionsCalled ''vipps'' 100, GetLatestTransactionsCalled ''zettle'' 100]"
    by code_simp
  have ids: "ID txOld = ''tx_old''" "ID txNew = ''tx_new''" "ID txZettle = ''tx_z''"
    by (simp_all add: txOld_def txNew_def txZettle_def sampleTransaction_def)
  have w: "trace emptyWorld = []" "clock emptyWorld = 1000"
    by (simp_all add: emptyWorld_def)
  from refreshCache_independent_providers [of sampleRepository emptyWorld]
  show ?thesis
    unfolding Let_def a
    by (simp add: c w ids entry24h_def Hour_def upsert_def)
qed







text \<open>
  Claim C4. \<open>GetTransactionByID\<close> returns the cached transaction on a cache hit, with no
  adapter call and no change of state. On a miss it asks the configured adapters in the
  order stripe, vipps, zettle, an adapter that fails being followed by the next, and stops
  at the first that succeeds; that transaction is stored in the cache under its id with an
  expiration 24 hours after the current instant, and returned. If no adapter succeeds, the
  result is the not-found error that carries the id.
\<close>

theorem getTransactionByID_cache_then_adapters:
  "(case cache_GetTransaction (clock w) ident (cache w) of
      Some transaction \<Rightarrow> GetTransactionByID r w ident = (Inr transaction, w)
    | None \<Rightarrow>
        (case firstSuccess (configured r) ident of
           (Some transaction, calls) \<Rightarrow>
               GetTransactionByID r w ident =
                 (Inr transaction,
                  w\<lparr>cache := cache_SetTransaction (clock w) (ID transaction) transaction
                               (24 * Hour) (cache w),
                    trace := trace w @ calls\<rparr>)
             \<and> map_of (items (cache (snd (GetTransactionByID r w ident))))
                  (''transaction:'' @ ID transaction) = Some (entry24h (clock w) transaction)
         | (None, calls) \<Rightarrow>
               GetTransactionByID r w ident =
                 (Inl (ErrTransactionNotFound ident), w\<lparr>trace := trace w @ calls\<rparr>)))"
proof (cases "cache_GetTransaction (clock w) ident (cache w)")
  case (Some transaction)
  then show ?thesis by (simp add: GetTransactionByID_def)
next
  case None
  have stored: "map_of (items (cache_SetTransaction now (ID t) t (24 * Hour) c))
      (''transaction:'' @ ID t) = Some (entry24h now t)" for now t c
    by (simp add: cache_SetTransaction_def gocache_Set_def Let_def Hour_def entry24h_def
        update_conv')
  have main: "(case firstSuccess (configured r) ident of
           (Some transaction, calls) \<Rightarrow>
               GetTransactionByID r w ident =
                 (Inr transaction,
                  w\<lparr>cache := cache_SetTransaction (clock w) (ID transaction) transaction
                               (24 * Hour) (cache w),
                    trace := trace w @ calls\<rparr>)
         | (None, calls) \<Rightarrow>
               GetTransactionByID r w ident =
                 (Inl (ErrTransactionNotFound ident), w\<lparr>trace := trace w @ calls\<rparr>))"
    by (cases "stripeClient r"; cases "vippsClient r"; cases "zettleClient r")
      (auto simp: GetTransactionByID_def None lookupIn_def configured_def
        PAYMENT_SOURCE_STRIPE_def PAYMENT_SOURCE_VIPPS_def PAYMENT_SOURCE_ZETTLE_def
        cacheTransaction_def Let_def split: sum.splits)
  show ?thesis
    unfolding None option.case using main
    by (auto simp: stored [simplified] split: prod.splits option.splits)
qed

theorem getTransactionByID_cache_then_adapters_witness:
  "fst (GetTransactionByID sampleRepository emptyWorld ''tx_z'') = Inr txZettle
   \<and> trace (snd (GetTransactionByID sampleRepository emptyWorld ''tx_z'')) =
       [GetTransactionByIDCalled ''stripe'' ''tx_z'', GetTransactionByIDCalled ''vipps'' ''tx_z'',
        GetTransactionByIDCalled ''zettle'' ''tx_z'']
   \<and> fst (GetTransactionByID sampleRepository emptyWorld ''tx_q'')
       = Inl (ErrTransactionNotFound ''tx_q'')
   \<and> GetTransactionByID sampleRepository cachedWorld ''tx_old'' = (Inr txOld, cachedWorld)"
proof -
  have m: "cache_GetTransaction (clock emptyWorld) ''tx_z'' (cache emptyWorld) = None"
    "cache_GetTransaction (clock emptyWorld) ''tx_q'' (cache emptyWorld) = None"
    "cache_GetTransaction (clock cachedWorld) ''tx_old'' (cache cachedWorld) = Some txOld"
    by code_simp+
  have f: "firstSuccess (configured sampleRepository) ''tx_z'' =
      (Some txZettle, [GetTransactionByIDCalled ''stripe'' ''tx_z'',
         GetTransactionByIDCalled ''vipps'' ''tx_z'', GetTransactionByIDCalled ''zettle'' ''tx_z''])"
    by code_simp
  have g: "fst (firstSuccess (configured sampleRepository) ''tx_q'') = None"
    by code_simp
  have t: "trace emptyWorld = []" by (simp add: emptyWorld_def)
  from getTransactionByID_cache_then_adapters [where w = emptyWorld and ident = "''tx_z''" and r = sampleRepository]
    getTransactionByID_cache_then_adapters [where w = emptyWorld and ident = "''tx_q''" and r = sampleRepository]
    getTransactionByID_cache_then_adapters [where w = cachedWorld and ident = "''tx_old''" and r = sampleRepository]
    g
  show ?thesis
    by (auto simp: m f t split: prod.splits option.splits)
qed

end
